theory Spec2Isabelle
  imports Main
begin

section \<open>Data model of \<open>src/app/page.tsx\<close>\<close>

text \<open>
  The interface \<open>FileNode\<close>: \<open>name\<close>, \<open>type\<close> (\<open>'file' | 'directory'\<close>) and the two
  optional fields \<open>content\<close> and \<open>children\<close>. An optional field that is absent
  (\<open>undefined\<close>) is \<open>None\<close>.
\<close>

datatype node_type = File | Directory

datatype FileNode = FileNode (name: string) (type: node_type)
  (content: "string option") (children: "FileNode list option")

text \<open>
  A value thrown by the browser or by the code: an object with a \<open>name\<close> and a
  \<open>message\<close> (\<open>Error\<close>, \<open>DOMException\<close>).
\<close>

datatype js_error = JsError (error_name: string) (error_message: string)

text \<open>
  What the browser answers for one file entry: \<open>await entry.getFile()\<close> rejects, or
  it resolves and \<open>await file.text()\<close> rejects, or both resolve and give the decoded
  text.
\<close>

datatype file_read = GetFileRejects js_error | TextRejects js_error | Text string

text \<open>
  A directory handle as \<open>readDirectory\<close> uses it: \<open>dirHandle.values()\<close> is an
  asynchronous iterator that yields the entries in the browser's order and then either
  completes (\<open>None\<close>) or rejects (\<open>Some e\<close>). An entry has a \<open>kind\<close> and a
  \<open>name\<close>; an entry whose kind is neither \<open>'file'\<close> nor \<open>'directory'\<close> is
  \<open>OtherEntry\<close>. The datatype is finite, so a handle has no cycle.
\<close>

datatype dir_handle = DirectoryHandle string "entry list" "js_error option"
  and entry = FileEntry string file_read | DirectoryEntry dir_handle | OtherEntry string

text \<open>The four \<open>useState\<close> cells of the component \<open>Home\<close>, with their initial values.\<close>

record app_state =
  files :: "FileNode list"
  selectedFile :: "(string \<times> string) option"
  terminalOutput :: "string list"
  error :: "string option"

definition initial_state :: app_state where
  "initial_state =
     \<lparr>files = [], selectedFile = None, terminalOutput = [], error = None\<rparr>"

text \<open>
  What a handler reads from \<open>window\<close>: whether \<open>'showDirectoryPicker' in window\<close>,
  whether \<open>window.top === window.self\<close>, and what
  \<open>await window.showDirectoryPicker()\<close> gives: a rejection or a directory handle.
\<close>

record window =
  has_showDirectoryPicker :: bool
  top_is_self :: bool
  showDirectoryPicker :: "js_error + dir_handle"

text \<open>
  The calls a handler makes, in the order it makes them: the state setters, the two
  calls on the way to the file system, and \<open>console.error\<close>.
\<close>

datatype effect =
    SetError "string option"
  | SetFiles "FileNode list"
  | SetSelectedFile "(string \<times> string) option"
  | CallShowDirectoryPicker
  | CallReadDirectory dir_handle
  | ConsoleError string js_error

fun apply_effect :: "app_state \<Rightarrow> effect \<Rightarrow> app_state" where
  "apply_effect s (SetError v) = s\<lparr>error := v\<rparr>"
| "apply_effect s (SetFiles v) = s\<lparr>files := v\<rparr>"
| "apply_effect s (SetSelectedFile v) = s\<lparr>selectedFile := v\<rparr>"
| "apply_effect s CallShowDirectoryPicker = s"
| "apply_effect s (CallReadDirectory d) = s"
| "apply_effect s (ConsoleError msg e) = s"

definition run :: "effect list \<Rightarrow> app_state \<Rightarrow> app_state" where
  "run effs s = foldl apply_effect s effs"

text \<open>JavaScript's \<open>a || b\<close> on an optional string: \<open>undefined\<close> and \<open>''\<close> are falsy.\<close>

definition js_or :: "string option \<Rightarrow> string \<Rightarrow> string" where
  "js_or a b = (case a of None \<Rightarrow> b | Some x \<Rightarrow> if x = [] then b else x)"

section \<open>The tree builder\<close>

text \<open>
  \<open>readDirectory(dirHandle, path)\<close>, lines 57 to 77. \<open>for_await\<close> is its loop
  \<open>for await (const entry of dirHandle.values())\<close>, with the array \<open>entries\<close> as the
  last argument; a rejected \<open>await\<close> leaves the function with \<open>Inl\<close>.
\<close>

fun readDirectory :: "dir_handle \<Rightarrow> string \<Rightarrow> js_error + FileNode list"
  and for_await ::
    "entry list \<Rightarrow> js_error option \<Rightarrow> string \<Rightarrow> FileNode list \<Rightarrow> js_error + FileNode list"
where
  "readDirectory (DirectoryHandle nm es fin) path = for_await es fin path []"
| "for_await [] None path entries = Inr entries"
| "for_await [] (Some e) path entries = Inl e"
| "for_await (FileEntry nm rd # rest) fin path entries =
     (case rd of
        GetFileRejects e \<Rightarrow> Inl e
      | TextRejects e \<Rightarrow> Inl e
      | Text txt \<Rightarrow>
          for_await rest fin path (entries @ [FileNode nm File (Some txt) None]))"
| "for_await (DirectoryEntry (DirectoryHandle nm es efin) # rest) fin path entries =
     (case readDirectory (DirectoryHandle nm es efin) (path @ ''/'' @ nm) of
        Inl e \<Rightarrow> Inl e
      | Inr ch \<Rightarrow>
          for_await rest fin path (entries @ [FileNode nm Directory None (Some ch)]))"
| "for_await (OtherEntry nm # rest) fin path entries = for_await rest fin path entries"

section \<open>The folder-pick action\<close>

definition isFileSystemApiSupported :: "window \<Rightarrow> bool" where
  "isFileSystemApiSupported w = has_showDirectoryPicker w"

definition unsupported_message :: string where
  "unsupported_message =
     ''Your browser does not support the File System Access API. Please use a modern browser like Chrome or Edge.''"

definition iframe_message :: string where
  "iframe_message =
     ''This feature cannot be used within an iframe. Please open the application in a new tab.''"

definition security_message :: string where
  "security_message =
     ''Cannot access files due to security restrictions. Please try opening the application in a new tab.''"

definition fallback_message :: string where
  "fallback_message = ''Failed to open folder. Please try again.''"

text \<open>
  The \<open>try\<close> block, lines 37 to 46: the calls made, and \<open>Inl\<close> of the value thrown
  when the block is left by a \<open>throw\<close> or a rejected \<open>await\<close>.
\<close>

definition try_block :: "window \<Rightarrow> effect list \<times> (js_error + unit)" where
  "try_block w =
     (if \<not> top_is_self w then ([], Inl (JsError ''Error'' iframe_message))
      else
        (case showDirectoryPicker w of
           Inl e \<Rightarrow> ([CallShowDirectoryPicker], Inl e)
         | Inr dirHandle \<Rightarrow>
             (case readDirectory dirHandle [] of
                Inl e \<Rightarrow> ([CallShowDirectoryPicker, CallReadDirectory dirHandle], Inl e)
              | Inr filesData \<Rightarrow>
                  ([CallShowDirectoryPicker, CallReadDirectory dirHandle, SetFiles filesData],
                   Inr ()))))"

text \<open>The \<open>catch\<close> block, lines 47 to 54.\<close>

definition banner :: "js_error \<Rightarrow> string" where
  "banner e =
     (if error_name e = ''SecurityError'' then security_message
      else js_or (Some (error_message e)) fallback_message)"

definition catch_block :: "js_error \<Rightarrow> effect list" where
  "catch_block e = [ConsoleError ''Error selecting folder:'' e, SetError (Some (banner e))]"

text \<open>\<open>handleFolderSelect\<close>, lines 29 to 55.\<close>

definition handleFolderSelect :: "window \<Rightarrow> effect list" where
  "handleFolderSelect w =
     SetError None #
     (if \<not> isFileSystemApiSupported w then [SetError (Some unsupported_message)]
      else
        (case try_block w of
           (effs, Inl e) \<Rightarrow> effs @ catch_block e
         | (effs, Inr u) \<Rightarrow> effs))"

section \<open>The tree view\<close>

text \<open>
  One \<open>div\<close> of \<open>renderFileTree\<close>, lines 81 to 99: its \<open>marginLeft\<close> in pixels, the
  icon and the label of its button, the node its \<open>onClick\<close> closes over, and the
  \<open>div\<close>s rendered inside it for the node's children.
\<close>

datatype icon = FolderIcon | FileIcon

datatype row = Row (marginLeft: nat) (icon: icon) (label: string) (target: FileNode)
  (nested: "row list")

text \<open>
  \<open>renderFileTree(nodes, level)\<close> is \<open>nodes.map\<close>; \<open>node.children && ...\<close> renders
  nothing when \<open>children\<close> is absent. The React \<open>key\<close> is left out.
\<close>

fun renderFileTree :: "FileNode list \<Rightarrow> nat \<Rightarrow> row list" where
  "renderFileTree [] level = []"
| "renderFileTree (FileNode nm ty c ch # nodes) level =
     Row (level * 16)
       (if ty = Directory then FolderIcon else FileIcon)
       nm
       (FileNode nm ty c ch)
       (case ch of None \<Rightarrow> [] | Some cs \<Rightarrow> renderFileTree cs (level + 1))
     # renderFileTree nodes level"

text \<open>The \<open>onClick\<close> of a row's button, lines 85 to 89, and of the close button, line 149.\<close>

definition onClick :: "FileNode \<Rightarrow> effect list" where
  "onClick node =
     (if type node = File then [SetSelectedFile (Some (name node, js_or (content node) []))]
      else [])"

definition click :: "row \<Rightarrow> effect list" where
  "click r = onClick (target r)"

definition closeFile :: "effect list" where
  "closeFile = [SetSelectedFile None]"

section \<open>Notions used to state the properties\<close>

text \<open>Putting the entries pushed so far in front of what the rest of a loop returns.\<close>

definition tack :: "FileNode list \<Rightarrow> js_error + FileNode list \<Rightarrow> js_error + FileNode list" where
  "tack acc r = (case r of Inl e \<Rightarrow> Inl e | Inr ns \<Rightarrow> Inr (acc @ ns))"

text \<open>
  A read rejects somewhere below a directory: its iteration rejects, or reading one of
  its files rejects, or the same holds for one of its subdirectories.
\<close>

fun rejects_somewhere :: "entry list \<Rightarrow> js_error option \<Rightarrow> bool" where
  "rejects_somewhere [] fin = (fin \<noteq> None)"
| "rejects_somewhere (FileEntry nm rd # rest) fin =
     ((case rd of Text t \<Rightarrow> False | GetFileRejects e \<Rightarrow> True | TextRejects e \<Rightarrow> True)
      \<or> rejects_somewhere rest fin)"
| "rejects_somewhere (DirectoryEntry (DirectoryHandle nm ces cfin) # rest) fin =
     (rejects_somewhere ces cfin \<or> rejects_somewhere rest fin)"
| "rejects_somewhere (OtherEntry nm # rest) fin = rejects_somewhere rest fin"

text \<open>The kind and the name of an entry; the files and subdirectories of a directory.\<close>

fun is_file :: "entry \<Rightarrow> bool" where
  "is_file (FileEntry nm rd) = True"
| "is_file (DirectoryEntry d) = False"
| "is_file (OtherEntry nm) = False"

fun is_directory :: "entry \<Rightarrow> bool" where
  "is_directory (FileEntry nm rd) = False"
| "is_directory (DirectoryEntry d) = True"
| "is_directory (OtherEntry nm) = False"

fun entry_name :: "entry \<Rightarrow> string" where
  "entry_name (FileEntry nm rd) = nm"
| "entry_name (DirectoryEntry (DirectoryHandle nm es fin)) = nm"
| "entry_name (OtherEntry nm) = nm"

definition listed :: "entry list \<Rightarrow> entry list" where
  "listed es = filter (\<lambda>e. is_file e \<or> is_directory e) es"

text \<open>
  One level: as many nodes as the directory has files and subdirectories, with their
  names, in the order of the iteration.
\<close>

definition level_matches :: "entry list \<Rightarrow> FileNode list \<Rightarrow> bool" where
  "level_matches es nodes =
     (length nodes = length (filter is_file es) + length (filter is_directory es)
      \<and> map name nodes = map entry_name (listed es))"

text \<open>
  All levels: the nodes pair off with the files and subdirectories, name and kind agree,
  and the \<open>children\<close> of the node of a subdirectory match that subdirectory's level and
  mirror it in turn.
\<close>

fun mirrors :: "entry list \<Rightarrow> FileNode list \<Rightarrow> bool" where
  "mirrors [] ns = (ns = [])"
| "mirrors (FileEntry nm rd # es) ns =
     (case ns of [] \<Rightarrow> False
      | n # ns' \<Rightarrow> name n = nm \<and> type n = File \<and> mirrors es ns')"
| "mirrors (DirectoryEntry (DirectoryHandle nm ces cfin) # es) ns =
     (case ns of [] \<Rightarrow> False
      | n # ns' \<Rightarrow> name n = nm \<and> type n = Directory
          \<and> (case children n of None \<Rightarrow> False
              | Some cs \<Rightarrow> level_matches ces cs \<and> mirrors ces cs)
          \<and> mirrors es ns')"
| "mirrors (OtherEntry nm # es) ns = mirrors es ns"

text \<open>
  The files below a directory, each with the list of names leading to it and what the
  browser answers when it is read; and the file nodes of a tree, each with the names
  leading to it and its \<open>content\<close>.
\<close>

fun text_of :: "file_read \<Rightarrow> string option" where
  "text_of (Text t) = Some t"
| "text_of (GetFileRejects e) = None"
| "text_of (TextRejects e) = None"

fun disk_files :: "string list \<Rightarrow> entry list \<Rightarrow> (string list \<times> file_read) list" where
  "disk_files pre [] = []"
| "disk_files pre (FileEntry nm rd # es) = (pre @ [nm], rd) # disk_files pre es"
| "disk_files pre (DirectoryEntry (DirectoryHandle nm ces cfin) # es) =
     disk_files (pre @ [nm]) ces @ disk_files pre es"
| "disk_files pre (OtherEntry nm # es) = disk_files pre es"

fun node_files :: "string list \<Rightarrow> FileNode list \<Rightarrow> (string list \<times> string option) list" where
  "node_files pre [] = []"
| "node_files pre (FileNode nm ty c ch # ns) =
     (case ty of
        File \<Rightarrow> [(pre @ [nm], c)]
      | Directory \<Rightarrow> (case ch of None \<Rightarrow> [] | Some cs \<Rightarrow> node_files (pre @ [nm]) cs))
     @ node_files pre ns"

text \<open>Every node of a tree, and the invariant of one node.\<close>

fun subtree_nodes :: "FileNode list \<Rightarrow> FileNode list" where
  "subtree_nodes [] = []"
| "subtree_nodes (FileNode nm ty c ch # ns) =
     FileNode nm ty c ch
     # (case ch of None \<Rightarrow> [] | Some cs \<Rightarrow> subtree_nodes cs) @ subtree_nodes ns"

definition exactly_one_populated :: "FileNode \<Rightarrow> bool" where
  "exactly_one_populated n =
     (case type n of
        File \<Rightarrow> content n \<noteq> None \<and> children n = None
      | Directory \<Rightarrow> children n \<noteq> None \<and> content n = None)"

text \<open>
  The rows of the rendered tree from top to bottom: the button of a \<open>div\<close> comes
  before the \<open>div\<close>s nested in it. And the nodes of a tree in depth-first pre-order,
  each with its depth.
\<close>

fun document_order :: "row list \<Rightarrow> row list" where
  "document_order [] = []"
| "document_order (Row m i l t ns # rs) = Row m i l t ns # document_order ns @ document_order rs"

fun preorder :: "FileNode list \<Rightarrow> nat \<Rightarrow> (FileNode \<times> nat) list" where
  "preorder [] depth = []"
| "preorder (FileNode nm ty c ch # ns) depth =
     (FileNode nm ty c ch, depth)
     # (case ch of None \<Rightarrow> [] | Some cs \<Rightarrow> preorder cs (depth + 1)) @ preorder ns depth"

text \<open>
  How far from the left edge of the tree each row is drawn. The left margin of a \<open>div\<close>
  moves the \<open>div\<close> with all that is rendered inside it, and the \<open>div\<close>s of the
  children are rendered inside the \<open>div\<close> of their parent (line 98 inside the
  element opened on line 81), so the margins along the nesting add up.
\<close>

fun indentation :: "nat \<Rightarrow> row list \<Rightarrow> (string \<times> nat) list" where
  "indentation left [] = []"
| "indentation left (Row m i l t ns # rs) =
     (l, left + m) # indentation (left + m) ns @ indentation left rs"

text \<open>The calls that write the error cell.\<close>

fun sets_error :: "effect \<Rightarrow> bool" where
  "sets_error (SetError v) = True"
| "sets_error (SetFiles v) = False"
| "sets_error (SetSelectedFile v) = False"
| "sets_error CallShowDirectoryPicker = False"
| "sets_error (CallReadDirectory d) = False"
| "sets_error (ConsoleError msg e) = False"

section \<open>Properties of the loop of \<open>readDirectory\<close>\<close>

text \<open>
  The array \<open>entries\<close> only grows: a loop started with some entries returns them in
  front of what the loop started with none returns. The hypotheses of the steps are
  kept out of the simplifier, which would rewrite with them for ever.
\<close>

lemma tack_simps [simp]: "tack acc (Inl e) = Inl e" "tack acc (Inr ns) = Inr (acc @ ns)"
  by (simp_all add: tack_def)

lemma tack_tack: "tack a (tack b r) = tack (a @ b) r"
  by (cases r) simp_all

lemma for_await_dir_step:
  assumes "readDirectory (DirectoryHandle nm es efin) (path @ ''/'' @ nm) = Inr ch"
  shows "for_await (DirectoryEntry (DirectoryHandle nm es efin) # rest) fin path xs =
          for_await rest fin path (xs @ [FileNode nm Directory None (Some ch)])"
  apply (subst for_await.simps(4))
  apply (subst assms)
  apply (simp only: sum.case)
  done

lemma for_await_dir_fail:
  assumes "readDirectory (DirectoryHandle nm es efin) (path @ ''/'' @ nm) = Inl e"
  shows "for_await (DirectoryEntry (DirectoryHandle nm es efin) # rest) fin path xs = Inl e"
  apply (subst for_await.simps(4))
  apply (subst assms)
  apply (simp only: sum.case)
  done

lemma for_await_acc_dir_fail:
  assumes Inl: "readDirectory (DirectoryHandle nm es efin) (path @ ''/'' @ nm) = Inl e"
  shows "for_await (DirectoryEntry (DirectoryHandle nm es efin) # rest) fin path acc =
          tack acc (for_await (DirectoryEntry (DirectoryHandle nm es efin) # rest) fin path [])"
  by (simp only: for_await_dir_fail[OF Inl] tack_simps)

lemma for_await_acc_dir:
  assumes r: "\<And>xs. for_await rest fin path xs = tack xs (for_await rest fin path [])"
    and Inr: "readDirectory (DirectoryHandle nm es efin) (path @ ''/'' @ nm) = Inr ch"
  shows "for_await (DirectoryEntry (DirectoryHandle nm es efin) # rest) fin path acc =
          tack acc (for_await (DirectoryEntry (DirectoryHandle nm es efin) # rest) fin path [])"
proof -
  have a: "for_await (DirectoryEntry (DirectoryHandle nm es efin) # rest) fin path acc
      = tack (acc @ [FileNode nm Directory None (Some ch)]) (for_await rest fin path [])"
    by (simp only: for_await_dir_step[OF Inr]) (rule r)
  have b: "for_await (DirectoryEntry (DirectoryHandle nm es efin) # rest) fin path []
      = tack [FileNode nm Directory None (Some ch)] (for_await rest fin path [])"
    by (simp only: for_await_dir_step[OF Inr] append_Nil) (rule r)
  show ?thesis
    by (simp only: a b tack_tack)
qed

lemma for_await_acc_file:
  assumes r: "\<And>tx xs. rd = Text tx \<Longrightarrow>
      for_await rest fin path xs = tack xs (for_await rest fin path [])"
  shows "for_await (FileEntry nm rd # rest) fin path acc =
         tack acc (for_await (FileEntry nm rd # rest) fin path [])"
proof (cases rd)
  case (Text tx)
  have "for_await (FileEntry nm rd # rest) fin path acc
      = tack (acc @ [FileNode nm File (Some tx) None]) (for_await rest fin path [])"
    using r[OF Text, of "acc @ [FileNode nm File (Some tx) None]"] Text by simp
  moreover have "for_await (FileEntry nm rd # rest) fin path []
      = tack [FileNode nm File (Some tx) None] (for_await rest fin path [])"
    using r[OF Text, of "[FileNode nm File (Some tx) None]"] Text by simp
  ultimately show ?thesis
    by (simp only: tack_tack)
qed simp_all

lemma for_await_acc_other:
  assumes r: "\<And>xs. for_await rest fin path xs = tack xs (for_await rest fin path [])"
  shows "for_await (OtherEntry nm # rest) fin path acc =
         tack acc (for_await (OtherEntry nm # rest) fin path [])"
  by (simp only: for_await.simps) (rule r)

lemma for_await_acc_all:
  "\<forall>acc. for_await es fin p acc = tack acc (for_await es fin p [])"
proof (rule readDirectory_for_await.induct(2)
    [where P = "\<lambda>_ _. True"
       and Q = "\<lambda>es fin p _. \<forall>acc. for_await es fin p acc = tack acc (for_await es fin p [])"])
  show "True" by simp
next
  fix path
  show "\<forall>acc. for_await [] None path acc = tack acc (for_await [] None path [])"
    by simp
next
  fix e path
  show "\<forall>acc. for_await [] (Some e) path acc = tack acc (for_await [] (Some e) path [])"
    by simp
next
  fix nm rd rest fin path entries
  assume "\<And>x3. rd = Text x3 \<Longrightarrow>
    \<forall>acc. for_await rest fin path acc = tack acc (for_await rest fin path [])"
  then show "\<forall>acc. for_await (FileEntry nm rd # rest) fin path acc =
    tack acc (for_await (FileEntry nm rd # rest) fin path [])"
    by (blast intro: for_await_acc_file)
next
  fix nm es efin rest fin path entries
  assume IH: "\<And>b. readDirectory (DirectoryHandle nm es efin) (path @ ''/'' @ nm) = Inr b \<Longrightarrow>
    \<forall>acc. for_await rest fin path acc = tack acc (for_await rest fin path [])"
  show "\<forall>acc. for_await (DirectoryEntry (DirectoryHandle nm es efin) # rest) fin path acc =
    tack acc (for_await (DirectoryEntry (DirectoryHandle nm es efin) # rest) fin path [])"
  proof (cases "readDirectory (DirectoryHandle nm es efin) (path @ ''/'' @ nm)")
    case (Inl e)
    then show ?thesis by (blast intro: for_await_acc_dir_fail)
  next
    case (Inr ch)
    from IH[OF Inr] show ?thesis by (blast intro: for_await_acc_dir[OF _ Inr])
  qed
next
  fix nm rest fin path entries
  assume "\<forall>acc. for_await rest fin path acc = tack acc (for_await rest fin path [])"
  then show "\<forall>acc. for_await (OtherEntry nm # rest) fin path acc =
    tack acc (for_await (OtherEntry nm # rest) fin path [])"
    by (blast intro: for_await_acc_other)
qed

lemma for_await_acc: "for_await es fin p acc = tack acc (for_await es fin p [])"
  using for_await_acc_all by blast

text \<open>A loop that returns has iterated to the end, and so has every loop below it.\<close>

lemma for_await_Inr_fin_all:
  "\<forall>nodes. for_await es fin p acc = Inr nodes \<longrightarrow> fin = None"
  by (rule readDirectory_for_await.induct(2)
      [where P = "\<lambda>_ _. True"
         and Q = "\<lambda>es fin p acc. \<forall>nodes. for_await es fin p acc = Inr nodes \<longrightarrow> fin = None"])
    (auto split: file_read.splits sum.splits)

lemma for_await_Inr_fin: "for_await es fin p acc = Inr nodes \<Longrightarrow> fin = None"
  using for_await_Inr_fin_all by blast

lemma for_await_File_Inr:
  assumes "for_await (FileEntry nm rd # rest) fin p [] = Inr nodes"
  obtains tx ns where "rd = Text tx" "for_await rest fin p [] = Inr ns"
    "nodes = FileNode nm File (Some tx) None # ns"
proof (cases rd)
  case (Text tx)
  with assms have "for_await rest fin p ([] @ [FileNode nm File (Some tx) None]) = Inr nodes"
    by simp
  then have "tack [FileNode nm File (Some tx) None] (for_await rest fin p []) = Inr nodes"
    by (simp only: append_Nil for_await_acc[of rest fin p "[FileNode nm File (Some tx) None]"])
  then show ?thesis using that Text
    by (cases "for_await rest fin p []") simp_all
qed (use assms in simp_all)

lemma for_await_Dir_Inr:
  assumes "for_await (DirectoryEntry (DirectoryHandle nm ces cfin) # rest) fin p [] = Inr nodes"
  obtains ch ns where "readDirectory (DirectoryHandle nm ces cfin) (p @ ''/'' @ nm) = Inr ch"
    "for_await rest fin p [] = Inr ns"
    "nodes = FileNode nm Directory None (Some ch) # ns"
proof (cases "readDirectory (DirectoryHandle nm ces cfin) (p @ ''/'' @ nm)")
  case (Inl e)
  from assms show ?thesis by (simp only: for_await_dir_fail[OF Inl]) simp
next
  case (Inr ch)
  from assms have "for_await rest fin p ([] @ [FileNode nm Directory None (Some ch)]) = Inr nodes"
    by (simp only: for_await_dir_step[OF Inr])
  then have "tack [FileNode nm Directory None (Some ch)] (for_await rest fin p []) = Inr nodes"
    by (simp only: append_Nil for_await_acc[of rest fin p "[FileNode nm Directory None (Some ch)]"])
  then show ?thesis using that Inr
    by (cases "for_await rest fin p []") simp_all
qed

text \<open>Induction over the reads that return: one case for each branch of the loop.\<close>

lemma read_success_induct [consumes 1, case_names Nil File Dir Other]:
  assumes ok: "for_await es fin p [] = Inr nodes"
    and nil: "\<And>p. R [] p []"
    and fil: "\<And>nm tx rest p ns.
        for_await rest None p [] = Inr ns \<Longrightarrow> R rest p ns \<Longrightarrow>
        R (FileEntry nm (Text tx) # rest) p (FileNode nm File (Some tx) None # ns)"
    and dir: "\<And>nm ces rest p ch ns.
        for_await ces None (p @ ''/'' @ nm) [] = Inr ch \<Longrightarrow> R ces (p @ ''/'' @ nm) ch \<Longrightarrow>
        for_await rest None p [] = Inr ns \<Longrightarrow> R rest p ns \<Longrightarrow>
        R (DirectoryEntry (DirectoryHandle nm ces None) # rest) p
          (FileNode nm Directory None (Some ch) # ns)"
    and other: "\<And>nm rest p ns.
        for_await rest None p [] = Inr ns \<Longrightarrow> R rest p ns \<Longrightarrow> R (OtherEntry nm # rest) p ns"
  shows "R es p nodes"
proof -
  have "\<forall>nodes. for_await es fin p [] = Inr nodes \<longrightarrow> R es p nodes"
  proof (rule readDirectory_for_await.induct(2)
      [where P = "\<lambda>d p. \<forall>nm ces cfin ch. d = DirectoryHandle nm ces cfin \<longrightarrow>
                     for_await ces cfin p [] = Inr ch \<longrightarrow> R ces p ch"
         and Q = "\<lambda>es fin p _. \<forall>nodes. for_await es fin p [] = Inr nodes \<longrightarrow> R es p nodes"])
    fix nm es fin path
    assume "\<forall>nodes. for_await es fin path [] = Inr nodes \<longrightarrow> R es path nodes"
    then show "\<forall>nma ces cfin ch. DirectoryHandle nm es fin = DirectoryHandle nma ces cfin \<longrightarrow>
        for_await ces cfin path [] = Inr ch \<longrightarrow> R ces path ch"
      by blast
  next
    fix path
    show "\<forall>nodes. for_await [] None path [] = Inr nodes \<longrightarrow> R [] path nodes"
      by (simp add: nil)
  next
    fix e path
    show "\<forall>nodes. for_await [] (Some e) path [] = Inr nodes \<longrightarrow> R [] path nodes"
      by simp
  next
    fix nm rd rest fin path and entries :: "FileNode list"
    assume IH: "\<And>x3. rd = Text x3 \<Longrightarrow>
      \<forall>nodes. for_await rest fin path [] = Inr nodes \<longrightarrow> R rest path nodes"
    show "\<forall>nodes. for_await (FileEntry nm rd # rest) fin path [] = Inr nodes \<longrightarrow>
      R (FileEntry nm rd # rest) path nodes"
    proof (intro allI impI)
      fix nodes
      assume a: "for_await (FileEntry nm rd # rest) fin path [] = Inr nodes"
      then obtain tx ns where t: "rd = Text tx" and r: "for_await rest fin path [] = Inr ns"
        and n: "nodes = FileNode nm File (Some tx) None # ns"
        by (rule for_await_File_Inr)
      from r have f: "fin = None" by (rule for_await_Inr_fin)
      from IH[OF t] r have "R rest path ns" by blast
      with r f show "R (FileEntry nm rd # rest) path nodes"
        unfolding t n by (blast intro: fil)
    qed
  next
    fix nm es efin rest fin path and entries :: "FileNode list"
    assume IH1: "\<forall>nma ces cfin ch. DirectoryHandle nm es efin = DirectoryHandle nma ces cfin \<longrightarrow>
        for_await ces cfin (path @ ''/'' @ nm) [] = Inr ch \<longrightarrow> R ces (path @ ''/'' @ nm) ch"
      and IH2: "\<And>b. readDirectory (DirectoryHandle nm es efin) (path @ ''/'' @ nm) = Inr b \<Longrightarrow>
        \<forall>nodes. for_await rest fin path [] = Inr nodes \<longrightarrow> R rest path nodes"
    show "\<forall>nodes. for_await (DirectoryEntry (DirectoryHandle nm es efin) # rest) fin path [] = Inr nodes \<longrightarrow>
      R (DirectoryEntry (DirectoryHandle nm es efin) # rest) path nodes"
    proof (intro allI impI)
      fix nodes
      assume a: "for_await (DirectoryEntry (DirectoryHandle nm es efin) # rest) fin path [] = Inr nodes"
      then obtain ch ns
        where c: "readDirectory (DirectoryHandle nm es efin) (path @ ''/'' @ nm) = Inr ch"
          and r: "for_await rest fin path [] = Inr ns"
          and n: "nodes = FileNode nm Directory None (Some ch) # ns"
        by (rule for_await_Dir_Inr)
      from c have c': "for_await es efin (path @ ''/'' @ nm) [] = Inr ch" by simp
      from r have f: "fin = None" by (rule for_await_Inr_fin)
      from c' have ef: "efin = None" by (rule for_await_Inr_fin)
      from IH1 c' have 1: "R es (path @ ''/'' @ nm) ch" by blast
      from IH2[OF c] r have 2: "R rest path ns" by blast
      from c' 1 r 2 show "R (DirectoryEntry (DirectoryHandle nm es efin) # rest) path nodes"
        unfolding n f ef by (rule dir)
    qed
  next
    fix nm rest fin path and entries :: "FileNode list"
    assume IH: "\<forall>nodes. for_await rest fin path [] = Inr nodes \<longrightarrow> R rest path nodes"
    show "\<forall>nodes. for_await (OtherEntry nm # rest) fin path [] = Inr nodes \<longrightarrow>
      R (OtherEntry nm # rest) path nodes"
    proof (intro allI impI)
      fix nodes
      assume "for_await (OtherEntry nm # rest) fin path [] = Inr nodes"
      then have r: "for_await rest fin path [] = Inr nodes" by simp
      from r have f: "fin = None" by (rule for_await_Inr_fin)
      from IH r have "R rest path nodes" by blast
      with r show "R (OtherEntry nm # rest) path nodes"
        unfolding f by (rule other)
    qed
  qed
  with ok show ?thesis by blast
qed

text \<open>The loop rejects exactly when a read below the directory rejects.\<close>

lemma rejects_iff_all:
  "rejects_somewhere es fin = (\<exists>e. for_await es fin p acc = Inl e)"
proof (rule readDirectory_for_await.induct(2)
    [where P = "\<lambda>d p. \<forall>nm ces cfin. d = DirectoryHandle nm ces cfin \<longrightarrow>
                   rejects_somewhere ces cfin = (\<exists>e. readDirectory d p = Inl e)"
       and Q = "\<lambda>es fin p acc. rejects_somewhere es fin = (\<exists>e. for_await es fin p acc = Inl e)"])
  fix nm es fin path
  assume "rejects_somewhere es fin = (\<exists>e. for_await es fin path [] = Inl e)"
  then show "\<forall>nma ces cfin. DirectoryHandle nm es fin = DirectoryHandle nma ces cfin \<longrightarrow>
      rejects_somewhere ces cfin = (\<exists>e. readDirectory (DirectoryHandle nm es fin) path = Inl e)"
    by simp
next
  fix nm es efin rest fin path entries
  assume 1: "\<forall>nma ces cfin. DirectoryHandle nm es efin = DirectoryHandle nma ces cfin \<longrightarrow>
      rejects_somewhere ces cfin =
      (\<exists>e. readDirectory (DirectoryHandle nm es efin) (path @ ''/'' @ nm) = Inl e)"
    and 2: "\<And>b. readDirectory (DirectoryHandle nm es efin) (path @ ''/'' @ nm) = Inr b \<Longrightarrow>
      rejects_somewhere rest fin =
      (\<exists>e. for_await rest fin path (entries @ [FileNode nm Directory None (Some b)]) = Inl e)"
  from 1 have c: "rejects_somewhere es efin =
      (\<exists>e. readDirectory (DirectoryHandle nm es efin) (path @ ''/'' @ nm) = Inl e)"
    by blast
  show "rejects_somewhere (DirectoryEntry (DirectoryHandle nm es efin) # rest) fin =
      (\<exists>e. for_await (DirectoryEntry (DirectoryHandle nm es efin) # rest) fin path entries = Inl e)"
  proof (cases "readDirectory (DirectoryHandle nm es efin) (path @ ''/'' @ nm)")
    case (Inl e)
    with c have "rejects_somewhere es efin" by blast
    then show ?thesis by (simp only: for_await_dir_fail[OF Inl] rejects_somewhere.simps) simp
  next
    case (Inr ch)
    with c have "\<not> rejects_somewhere es efin" by simp
    with 2[OF Inr] show ?thesis
      by (simp only: for_await_dir_step[OF Inr] rejects_somewhere.simps) simp
  qed
qed (auto split: file_read.splits)

lemma no_reject_reads:
  assumes "\<not> rejects_somewhere es fin"
  shows "\<exists>nodes. for_await es fin p [] = Inr nodes"
proof (cases "for_await es fin p []")
  case (Inl e)
  then have "rejects_somewhere es fin"
    using rejects_iff_all[of es fin p "[]"] by blast
  with assms show ?thesis by simp
next
  case (Inr nodes)
  then show ?thesis by blast
qed

lemma read_level_mirrors:
  assumes "for_await es fin p [] = Inr nodes"
  shows "level_matches es nodes \<and> mirrors es nodes"
  using assms
proof (induction rule: read_success_induct)
  case (Nil p)
  show ?case by (simp add: level_matches_def listed_def)
next
  case (File nm tx rest p ns)
  then show ?case by (simp add: level_matches_def listed_def)
next
  case (Dir nm ces rest p ch ns)
  then show ?case by (simp add: level_matches_def listed_def)
next
  case (Other nm rest p ns)
  then show ?case by (simp add: level_matches_def listed_def)
qed

lemma read_node_files:
  assumes "for_await es fin p [] = Inr nodes"
  shows "\<forall>pre. node_files pre nodes = map (\<lambda>(q, rd). (q, text_of rd)) (disk_files pre es)
     \<and> list_all (\<lambda>(q, rd). text_of rd \<noteq> None) (disk_files pre es)"
  using assms
  by (induction rule: read_success_induct) simp_all

lemma read_exactly_one:
  assumes "for_await es fin p [] = Inr nodes"
  shows "list_all exactly_one_populated (subtree_nodes nodes)"
  using assms
  by (induction rule: read_success_induct) (simp_all add: exactly_one_populated_def)

section \<open>Properties of the handlers\<close>

lemma run_Nil [simp]: "run [] s = s"
  by (simp add: run_def)

lemma run_Cons [simp]: "run (e # es) s = run es (apply_effect s e)"
  by (simp add: run_def)

lemma banner_nonempty: "banner e \<noteq> []"
  by (simp add: banner_def security_message_def fallback_message_def js_or_def)

lemma handleFolderSelect_unsupported:
  assumes "\<not> isFileSystemApiSupported w"
  shows "handleFolderSelect w = [SetError None, SetError (Some unsupported_message)]"
  using assms by (simp add: handleFolderSelect_def)

lemma handleFolderSelect_rejected:
  assumes "isFileSystemApiSupported w" "top_is_self w" "showDirectoryPicker w = Inl e"
  shows "handleFolderSelect w =
     [SetError None, CallShowDirectoryPicker,
      ConsoleError ''Error selecting folder:'' e, SetError (Some (banner e))]"
  using assms by (simp add: handleFolderSelect_def try_block_def catch_block_def)

lemma handleFolderSelect_read_fails:
  assumes "isFileSystemApiSupported w" "top_is_self w" "showDirectoryPicker w = Inr d"
    "readDirectory d [] = Inl e"
  shows "handleFolderSelect w =
     [SetError None, CallShowDirectoryPicker, CallReadDirectory d,
      ConsoleError ''Error selecting folder:'' e, SetError (Some (banner e))]"
  using assms by (simp add: handleFolderSelect_def try_block_def catch_block_def)

lemma handleFolderSelect_success:
  assumes "isFileSystemApiSupported w" "top_is_self w" "showDirectoryPicker w = Inr d"
    "readDirectory d [] = Inr filesData"
  shows "handleFolderSelect w =
     [SetError None, CallShowDirectoryPicker, CallReadDirectory d, SetFiles filesData]"
  using assms by (simp add: handleFolderSelect_def try_block_def catch_block_def)

lemma handleFolderSelect_starts:
  "\<exists>rest. handleFolderSelect w = SetError None # rest"
  by (simp add: handleFolderSelect_def)

lemma unsupported_prefix:
  "\<exists>rest. unsupported_message =
     ''Your browser does not support the File System Access API'' @ rest"
  unfolding unsupported_message_def
  by (rule exI[of _ "''. Please use a modern browser like Chrome or Edge.''"]) simp

lemma render_preorder:
  "map (\<lambda>r. (label r, target r, marginLeft r)) (document_order (renderFileTree nodes level))
   = map (\<lambda>(n, d). (name n, n, d * 16)) (preorder nodes level)"
  by (induction nodes level rule: renderFileTree.induct) (simp_all split: option.splits)

text \<open>
  The indentation of a row at depth \<open>d\<close> of a tree rendered from \<open>level\<close>: the sum of
  the margins from \<open>level\<close> to \<open>d\<close>.
\<close>

lemma preorder_depth_ge:
  "(n, d) \<in> set (preorder nodes level) \<Longrightarrow> level \<le> d"
  by (induction nodes level rule: preorder.induct) (auto split: option.splits)

lemma margin_plus_sum:
  "level < d \<Longrightarrow> level * 16 + 16 * (\<Sum>k = Suc level..d. k) = 16 * (\<Sum>k = level..d. k)"
  for level d :: nat
  by (simp add: sum.atLeast_Suc_atMost[of level d] algebra_simps)

lemma indentation_render:
  "indentation left (renderFileTree nodes level)
   = map (\<lambda>(n, d). (name n, left + 16 * (\<Sum>k = level..d. k))) (preorder nodes level)"
proof (induction nodes level arbitrary: left rule: renderFileTree.induct)
  case (1 level)
  show ?case by simp
next
  case (2 nm ty c ch nodes level)
  show ?case
  proof (cases ch)
    case None
    then show ?thesis using 2 by simp
  next
    case (Some cs)
    have "indentation (left + level * 16) (renderFileTree cs (level + 1))
      = map (\<lambda>(n, d). (name n, left + level * 16 + 16 * (\<Sum>k = level + 1..d. k)))
          (preorder cs (level + 1))"
      using "2.IH"(1)[OF Some] .
    also have "\<dots> = map (\<lambda>(n, d). (name n, left + 16 * (\<Sum>k = level..d. k)))
          (preorder cs (level + 1))"
    proof (rule map_cong[OF refl])
      fix x assume mem: "x \<in> set (preorder cs (level + 1))"
      obtain n d where x: "x = (n, d)" by (cases x)
      from mem have "level + 1 \<le> d"
        unfolding x by (rule preorder_depth_ge)
      then have "level < d" by simp
      from margin_plus_sum[OF this]
      show "(case x of (n, d) \<Rightarrow> (name n, left + level * 16 + 16 * (\<Sum>k = level + 1..d. k)))
        = (case x of (n, d) \<Rightarrow> (name n, left + 16 * (\<Sum>k = level..d. k)))"
        unfolding x by simp
    qed
    finally have kids: "indentation (left + level * 16) (renderFileTree cs (level + 1))
      = map (\<lambda>(n, d). (name n, left + 16 * (\<Sum>k = level..d. k))) (preorder cs (level + 1))" .
    show ?thesis using Some kids "2.IH"(2)[of left] by simp
  qed
qed

section \<open>Calls of several handlers, interleaved\<close>

text \<open>
  A handler is suspended at each \<open>await\<close>, and the calls of another handler may come
  in between. The error left by a sequence of calls is decided by its \<open>setError\<close>
  calls alone.
\<close>

lemma error_apply_other:
  "\<not> sets_error e \<Longrightarrow> error (apply_effect s e) = error s"
  by (cases e) simp_all

lemma error_run_cong:
  "error s = error s' \<Longrightarrow> error (run effs s) = error (run effs s')"
proof (induction effs arbitrary: s s')
  case Nil
  then show ?case by simp
next
  case (Cons e effs)
  have "error (apply_effect s e) = error (apply_effect s' e)"
    using Cons.prems by (cases e) simp_all
  then have "error (run effs (apply_effect s e)) = error (run effs (apply_effect s' e))"
    by (rule Cons.IH)
  then show ?case by (simp only: run_Cons)
qed

lemma error_run_filter:
  "error (run effs s) = error (run (filter sets_error effs) s)"
proof (induction effs arbitrary: s)
  case Nil
  show ?case by simp
next
  case (Cons e effs)
  show ?case
  proof (cases "sets_error e")
    case True
    have "error (run effs (apply_effect s e))
        = error (run (filter sets_error effs) (apply_effect s e))"
      by (rule Cons.IH)
    with True show ?thesis by (simp only: run_Cons filter.simps if_True)
  next
    case False
    have "error (run effs (apply_effect s e)) = error (run effs s)"
      by (rule error_run_cong[OF error_apply_other[OF False]])
    also have "\<dots> = error (run (filter sets_error effs) s)"
      by (rule Cons.IH)
    finally show ?thesis using False by (simp only: run_Cons filter.simps if_False)
  qed
qed

lemma shuffles_filter_none:
  assumes "zs \<in> shuffles xs ys" and "filter P ys = []"
  shows "filter P zs = filter P xs"
proof -
  from assms(1) have "filter P zs \<in> filter P ` shuffles xs ys" by blast
  then have "filter P zs \<in> shuffles (filter P xs) (filter P ys)"
    by (simp only: filter_shuffles)
  with assms(2) show ?thesis by simp
qed

lemma error_run_shuffles:
  assumes "zs \<in> shuffles xs ys" and "filter sets_error ys = []"
  shows "error (run zs s) = error (run xs s)"
proof -
  have "error (run zs s) = error (run (filter sets_error zs) s)"
    by (rule error_run_filter)
  also have "filter sets_error zs = filter sets_error xs"
    using assms by (rule shuffles_filter_none)
  also have "error (run (filter sets_error xs) s) = error (run xs s)"
    by (rule error_run_filter[symmetric])
  finally show ?thesis .
qed

text \<open>The calls of a pick that succeeds on a folder with one file, and of a cancelled pick.\<close>

lemma one_file_pick_calls:
  "handleFolderSelect
     \<lparr>has_showDirectoryPicker = True, top_is_self = True,
      showDirectoryPicker =
        Inr (DirectoryHandle ''src'' [FileEntry ''a.txt'' (Text ''A'')] None)\<rparr>
   = [SetError None, CallShowDirectoryPicker,
      CallReadDirectory (DirectoryHandle ''src'' [FileEntry ''a.txt'' (Text ''A'')] None),
      SetFiles [FileNode ''a.txt'' File (Some ''A'') None]]"
  by (simp add: handleFolderSelect_def try_block_def isFileSystemApiSupported_def)

lemma cancelled_pick_calls:
  "handleFolderSelect
     \<lparr>has_showDirectoryPicker = True, top_is_self = True,
      showDirectoryPicker = Inl (JsError ''AbortError'' ''The user aborted a request.'')\<rparr>
   = [SetError None, CallShowDirectoryPicker,
      ConsoleError ''Error selecting folder:''
        (JsError ''AbortError'' ''The user aborted a request.''),
      SetError (Some ''The user aborted a request.'')]"
  by (simp add: handleFolderSelect_def try_block_def catch_block_def banner_def js_or_def
      isFileSystemApiSupported_def)

lemma cancel_during_read_interleaves:
  "[SetError None, CallShowDirectoryPicker,
    CallReadDirectory (DirectoryHandle ''src'' [FileEntry ''a.txt'' (Text ''A'')] None),
    SetError None, CallShowDirectoryPicker,
    ConsoleError ''Error selecting folder:''
      (JsError ''AbortError'' ''The user aborted a request.''),
    SetError (Some ''The user aborted a request.''),
    SetFiles [FileNode ''a.txt'' File (Some ''A'') None]]
   \<in> shuffles
       (handleFolderSelect
         \<lparr>has_showDirectoryPicker = True, top_is_self = True,
          showDirectoryPicker =
            Inr (DirectoryHandle ''src'' [FileEntry ''a.txt'' (Text ''A'')] None)\<rparr>)
       (handleFolderSelect
         \<lparr>has_showDirectoryPicker = True, top_is_self = True,
          showDirectoryPicker = Inl (JsError ''AbortError'' ''The user aborted a request.'')\<rparr>)"
  apply (subst one_file_pick_calls)
  apply (subst cancelled_pick_calls)
  apply (rule Cons_in_shuffles_leftI)
  apply (rule Cons_in_shuffles_leftI)
  apply (rule Cons_in_shuffles_leftI)
  apply (rule Cons_in_shuffles_rightI)
  apply (rule Cons_in_shuffles_rightI)
  apply (rule Cons_in_shuffles_rightI)
  apply (rule Cons_in_shuffles_rightI)
  apply (rule Cons_in_shuffles_leftI)
  apply (rule Nil_in_shufflesI)
   apply (rule refl)
  apply (rule refl)
  done

lemma click_during_read_interleaves:
  "[SetError None, CallShowDirectoryPicker,
    CallReadDirectory (DirectoryHandle ''src'' [FileEntry ''a.txt'' (Text ''A'')] None),
    SetSelectedFile (Some (''old.txt'', ''O'')),
    SetFiles [FileNode ''a.txt'' File (Some ''A'') None]]
   \<in> shuffles
       (handleFolderSelect
         \<lparr>has_showDirectoryPicker = True, top_is_self = True,
          showDirectoryPicker =
            Inr (DirectoryHandle ''src'' [FileEntry ''a.txt'' (Text ''A'')] None)\<rparr>)
       [SetSelectedFile (Some (''old.txt'', ''O''))]"
  apply (subst one_file_pick_calls)
  apply (rule Cons_in_shuffles_leftI)
  apply (rule Cons_in_shuffles_leftI)
  apply (rule Cons_in_shuffles_leftI)
  apply (rule Cons_in_shuffles_rightI)
  apply (rule Cons_in_shuffles_leftI)
  apply (rule Nil_in_shufflesI)
   apply (rule refl)
  apply (rule refl)
  done

section \<open>The claims\<close>

subsection \<open>C1: a rejected picker\<close>

text \<open>
  Claim C1, as the code has it. When the directory picker rejects, whatever the reason
  and a cancellation by the user included, the \<open>catch\<close> block sets the error: the
  security message when the rejection is named \<open>SecurityError\<close>, otherwise the
  rejection's message, or the fallback message when that message is empty. The error
  set is never empty, so the banner is shown. \<open>files\<close>, the selection and the terminal
  output stay as they were.
\<close>

theorem picker_rejection_sets_banner:
  assumes "isFileSystemApiSupported w" and "top_is_self w"
    and "showDirectoryPicker w = Inl e"
  shows "run (handleFolderSelect w) s = s\<lparr>error := Some (banner e)\<rparr>
    \<and> files (run (handleFolderSelect w) s) = files s
    \<and> banner e \<noteq> []
    \<and> banner e =
        (if error_name e = ''SecurityError'' then security_message
         else if error_message e = [] then fallback_message else error_message e)"
  using assms
  by (simp add: handleFolderSelect_rejected banner_nonempty) (simp add: banner_def js_or_def)

text \<open>
  C1 at a picker called outside a user gesture: the rejection is a \<open>SecurityError\<close>
  and the banner is the security message.
\<close>

theorem picker_rejection_sets_banner_witness:
  "isFileSystemApiSupported
     \<lparr>has_showDirectoryPicker = True, top_is_self = True,
      showDirectoryPicker = Inl (JsError ''SecurityError'' ''Must be handling a user gesture.'')\<rparr>
   \<and> run (handleFolderSelect
        \<lparr>has_showDirectoryPicker = True, top_is_self = True,
         showDirectoryPicker = Inl (JsError ''SecurityError'' ''Must be handling a user gesture.'')\<rparr>)
       initial_state
     = initial_state\<lparr>error := Some security_message\<rparr>"
proof -
  let ?w = "\<lparr>has_showDirectoryPicker = True, top_is_self = True,
      showDirectoryPicker = Inl (JsError ''SecurityError'' ''Must be handling a user gesture.'')\<rparr>"
  have 1: "isFileSystemApiSupported ?w"
    by (simp add: isFileSystemApiSupported_def)
  have 2: "top_is_self ?w"
    by simp
  have 3: "showDirectoryPicker ?w = Inl (JsError ''SecurityError'' ''Must be handling a user gesture.'')"
    by simp
  from picker_rejection_sets_banner[OF 1 2 3, of initial_state] 1 show ?thesis
    by simp
qed

text \<open>
  C1 as stated fails: when the user cancels, the picker rejects with an \<open>AbortError\<close>
  whose message is not empty, and that message becomes the error banner.
\<close>

theorem cancellation_shows_banner:
  "error (run (handleFolderSelect
       \<lparr>has_showDirectoryPicker = True, top_is_self = True,
        showDirectoryPicker = Inl (JsError ''AbortError'' ''The user aborted a request.'')\<rparr>)
     initial_state) = Some ''The user aborted a request.''
   \<and> error initial_state = None"
  by (simp add: handleFolderSelect_def try_block_def catch_block_def banner_def js_or_def
      isFileSystemApiSupported_def initial_state_def)

subsection \<open>C2: a read that fails\<close>

text \<open>
  Claim C2. When the picker gives a directory and a read rejects somewhere below it
  (the iteration of a directory or the read of a file, at any depth), \<open>readDirectory\<close>
  rejects, \<open>setFiles\<close> is not called, \<open>files\<close> is what it was, and the error is set
  from the rejection.
\<close>

theorem failed_read_commits_nothing:
  assumes "isFileSystemApiSupported w" and "top_is_self w"
    and "showDirectoryPicker w = Inr (DirectoryHandle nm es fin)"
    and "rejects_somewhere es fin"
  shows "\<exists>e. readDirectory (DirectoryHandle nm es fin) [] = Inl e
    \<and> run (handleFolderSelect w) s = s\<lparr>error := Some (banner e)\<rparr>
    \<and> files (run (handleFolderSelect w) s) = files s
    \<and> banner e \<noteq> []
    \<and> (\<forall>v. SetFiles v \<notin> set (handleFolderSelect w))"
proof -
  from assms(4) obtain e where "for_await es fin [] [] = Inl e"
    using rejects_iff_all[of es fin "[]" "[]"] by blast
  then have e: "readDirectory (DirectoryHandle nm es fin) [] = Inl e"
    by simp
  have h: "handleFolderSelect w =
     [SetError None, CallShowDirectoryPicker, CallReadDirectory (DirectoryHandle nm es fin),
      ConsoleError ''Error selecting folder:'' e, SetError (Some (banner e))]"
    using assms(1-3) e by (rule handleFolderSelect_read_fails)
  from e show ?thesis
    unfolding h by (intro exI[of _ e]) (simp add: banner_nonempty)
qed

text \<open>
  C2 at a folder whose first file is read and whose subdirectory holds a file that
  cannot be read, with a tree already shown: the tree shown stays.
\<close>

theorem failed_read_commits_nothing_witness:
  "rejects_somewhere
     [FileEntry ''a.txt'' (Text ''A''),
      DirectoryEntry (DirectoryHandle ''lib''
        [FileEntry ''b.txt'' (TextRejects (JsError ''NotReadableError'' ''unreadable''))] None)]
     None
   \<and> run (handleFolderSelect
        \<lparr>has_showDirectoryPicker = True, top_is_self = True,
         showDirectoryPicker = Inr (DirectoryHandle ''src''
           [FileEntry ''a.txt'' (Text ''A''),
            DirectoryEntry (DirectoryHandle ''lib''
              [FileEntry ''b.txt'' (TextRejects (JsError ''NotReadableError'' ''unreadable''))]
              None)]
           None)\<rparr>)
       (initial_state\<lparr>files := [FileNode ''old.txt'' File (Some ''O'') None]\<rparr>)
     = initial_state\<lparr>files := [FileNode ''old.txt'' File (Some ''O'') None],
         error := Some ''unreadable''\<rparr>"
proof -
  let ?es = "[FileEntry ''a.txt'' (Text ''A''),
      DirectoryEntry (DirectoryHandle ''lib''
        [FileEntry ''b.txt'' (TextRejects (JsError ''NotReadableError'' ''unreadable''))] None)]"
  let ?w = "\<lparr>has_showDirectoryPicker = True, top_is_self = True,
         showDirectoryPicker = Inr (DirectoryHandle ''src'' ?es None)\<rparr>"
  have 1: "isFileSystemApiSupported ?w"
    by (simp add: isFileSystemApiSupported_def)
  have 2: "top_is_self ?w"
    by simp
  have 3: "showDirectoryPicker ?w = Inr (DirectoryHandle ''src'' ?es None)"
    by simp
  have 4: "rejects_somewhere ?es None"
    by simp
  from failed_read_commits_nothing[OF 1 2 3 4,
      of "initial_state\<lparr>files := [FileNode ''old.txt'' File (Some ''O'') None]\<rparr>"] 4
  show ?thesis
    by (simp add: banner_def js_or_def)
qed

subsection \<open>C3: the tree mirrors the directory\<close>

text \<open>
  Claim C3. For a directory below which no read rejects, \<open>readDirectory\<close> returns a
  list with one node for each file and each subdirectory: as many nodes as there are
  files and subdirectories, with their names in the order of the iteration; and the
  \<open>children\<close> of the node of every subdirectory satisfy the same, at every depth.
\<close>

theorem readDirectory_mirrors_directory:
  assumes "\<not> rejects_somewhere es fin"
  shows "\<exists>nodes. readDirectory (DirectoryHandle nm es fin) path = Inr nodes
    \<and> length nodes = length (filter is_file es) + length (filter is_directory es)
    \<and> map name nodes = map entry_name (listed es)
    \<and> mirrors es nodes"
proof -
  from assms obtain nodes where r: "for_await es fin path [] = Inr nodes"
    using no_reject_reads by blast
  from read_level_mirrors[OF r] have "level_matches es nodes" and "mirrors es nodes"
    by simp_all
  with r show ?thesis
    by (simp add: level_matches_def)
qed

text \<open>C3 at a directory with one file and one subdirectory that holds one file.\<close>

theorem readDirectory_mirrors_directory_witness:
  "\<not> rejects_somewhere
       [FileEntry ''a.txt'' (Text ''A''),
        DirectoryEntry (DirectoryHandle ''lib'' [FileEntry ''b.txt'' (Text ''B'')] None)]
       None
   \<and> readDirectory (DirectoryHandle ''src''
       [FileEntry ''a.txt'' (Text ''A''),
        DirectoryEntry (DirectoryHandle ''lib'' [FileEntry ''b.txt'' (Text ''B'')] None)]
       None) []
     = Inr [FileNode ''a.txt'' File (Some ''A'') None,
            FileNode ''lib'' Directory None (Some [FileNode ''b.txt'' File (Some ''B'') None])]
   \<and> mirrors
       [FileEntry ''a.txt'' (Text ''A''),
        DirectoryEntry (DirectoryHandle ''lib'' [FileEntry ''b.txt'' (Text ''B'')] None)]
       [FileNode ''a.txt'' File (Some ''A'') None,
        FileNode ''lib'' Directory None (Some [FileNode ''b.txt'' File (Some ''B'') None])]"
proof -
  let ?es = "[FileEntry ''a.txt'' (Text ''A''),
        DirectoryEntry (DirectoryHandle ''lib'' [FileEntry ''b.txt'' (Text ''B'')] None)]"
  have 1: "\<not> rejects_somewhere ?es None"
    by simp
  from readDirectory_mirrors_directory[OF 1, of "''src''" "[]"] 1 show ?thesis
    by simp
qed

subsection \<open>C4: the content of a file node\<close>

text \<open>
  Claim C4. In the tree that \<open>readDirectory\<close> returns, the file nodes are the files
  below the directory, in the same order and under the same names, and the \<open>content\<close>
  of each is the text that \<open>file.text()\<close> gave for that file; every file was decoded.
\<close>

theorem content_is_file_text:
  assumes "readDirectory (DirectoryHandle nm es fin) path = Inr nodes"
  shows "node_files [] nodes = map (\<lambda>(q, rd). (q, text_of rd)) (disk_files [] es)
    \<and> list_all (\<lambda>(q, rd). text_of rd \<noteq> None) (disk_files [] es)"
proof -
  from assms have "for_await es fin path [] = Inr nodes"
    by simp
  from read_node_files[OF this] show ?thesis
    by blast
qed

text \<open>C4 at the same directory: both files come back with their text.\<close>

theorem content_is_file_text_witness:
  "readDirectory (DirectoryHandle ''src''
       [FileEntry ''a.txt'' (Text ''A''),
        DirectoryEntry (DirectoryHandle ''lib'' [FileEntry ''b.txt'' (Text ''B'')] None)]
       None) []
     = Inr [FileNode ''a.txt'' File (Some ''A'') None,
            FileNode ''lib'' Directory None (Some [FileNode ''b.txt'' File (Some ''B'') None])]
   \<and> node_files []
       [FileNode ''a.txt'' File (Some ''A'') None,
        FileNode ''lib'' Directory None (Some [FileNode ''b.txt'' File (Some ''B'') None])]
     = [([''a.txt''], Some ''A''), ([''lib'', ''b.txt''], Some ''B'')]"
proof -
  let ?es = "[FileEntry ''a.txt'' (Text ''A''),
        DirectoryEntry (DirectoryHandle ''lib'' [FileEntry ''b.txt'' (Text ''B'')] None)]"
  let ?nodes = "[FileNode ''a.txt'' File (Some ''A'') None,
        FileNode ''lib'' Directory None (Some [FileNode ''b.txt'' File (Some ''B'') None])]"
  have 1: "readDirectory (DirectoryHandle ''src'' ?es None) [] = Inr ?nodes"
    by simp
  from content_is_file_text[OF 1] 1 show ?thesis
    by simp
qed

subsection \<open>C5: content or children, by kind\<close>

text \<open>
  Claim C5. Every node of a tree that \<open>readDirectory\<close> returns, at every depth, has
  \<open>content\<close> and no \<open>children\<close> when its type is \<open>file\<close>, and \<open>children\<close> and no
  \<open>content\<close> when its type is \<open>directory\<close>.
\<close>

theorem nodes_exactly_one_populated:
  assumes "readDirectory d path = Inr nodes"
  shows "list_all exactly_one_populated (subtree_nodes nodes)"
proof (cases d)
  case (DirectoryHandle nm es fin)
  with assms have "for_await es fin path [] = Inr nodes"
    by simp
  then show ?thesis
    by (rule read_exactly_one)
qed

text \<open>C5 at a directory with an empty file and an empty subdirectory.\<close>

theorem nodes_exactly_one_populated_witness:
  "readDirectory (DirectoryHandle ''src''
       [FileEntry ''empty.txt'' (Text ''''), DirectoryEntry (DirectoryHandle ''lib'' [] None)]
       None) []
     = Inr [FileNode ''empty.txt'' File (Some '''') None, FileNode ''lib'' Directory None (Some [])]
   \<and> list_all exactly_one_populated
       (subtree_nodes
         [FileNode ''empty.txt'' File (Some '''') None, FileNode ''lib'' Directory None (Some [])])"
proof -
  have 1: "readDirectory (DirectoryHandle ''src''
       [FileEntry ''empty.txt'' (Text ''''), DirectoryEntry (DirectoryHandle ''lib'' [] None)]
       None) []
     = Inr [FileNode ''empty.txt'' File (Some '''') None, FileNode ''lib'' Directory None (Some [])]"
    by simp
  from nodes_exactly_one_populated[OF 1] 1 show ?thesis
    by simp
qed

subsection \<open>C6: a browser without the picker\<close>

text \<open>
  Claim C6. Without \<open>showDirectoryPicker\<close> in \<open>window\<close>, the handler clears the error,
  sets it to the message that begins with
  \<open>Your browser does not support the File System Access API\<close>, and returns: it calls
  neither the picker nor \<open>readDirectory\<close>, and \<open>files\<close> is what it was.
\<close>

theorem unsupported_browser_reports:
  assumes "\<not> isFileSystemApiSupported w"
  shows "handleFolderSelect w = [SetError None, SetError (Some unsupported_message)]
    \<and> run (handleFolderSelect w) s = s\<lparr>error := Some unsupported_message\<rparr>
    \<and> files (run (handleFolderSelect w) s) = files s
    \<and> (\<exists>rest. unsupported_message =
          ''Your browser does not support the File System Access API'' @ rest)"
  using assms unsupported_prefix
  by (simp add: handleFolderSelect_unsupported)

text \<open>C6 at a browser without the picker, whatever the picker would have answered.\<close>

theorem unsupported_browser_reports_witness:
  "\<not> isFileSystemApiSupported
       \<lparr>has_showDirectoryPicker = False, top_is_self = True,
        showDirectoryPicker = Inr (DirectoryHandle ''src'' [] None)\<rparr>
   \<and> handleFolderSelect
       \<lparr>has_showDirectoryPicker = False, top_is_self = True,
        showDirectoryPicker = Inr (DirectoryHandle ''src'' [] None)\<rparr>
     = [SetError None, SetError (Some unsupported_message)]
   \<and> run (handleFolderSelect
        \<lparr>has_showDirectoryPicker = False, top_is_self = True,
         showDirectoryPicker = Inr (DirectoryHandle ''src'' [] None)\<rparr>) initial_state
     = initial_state\<lparr>error := Some unsupported_message\<rparr>"
proof -
  let ?w = "\<lparr>has_showDirectoryPicker = False, top_is_self = True,
        showDirectoryPicker = Inr (DirectoryHandle ''src'' [] None)\<rparr>"
  have 1: "\<not> isFileSystemApiSupported ?w"
    by (simp add: isFileSystemApiSupported_def)
  from unsupported_browser_reports[OF 1, of initial_state] 1 show ?thesis
    by simp
qed

subsection \<open>C7: one selection\<close>

text \<open>
  Claim C7. For file nodes \<open>A\<close> and \<open>B\<close>, \<open>B\<close> with its \<open>content\<close>, clicking the row of
  \<open>A\<close> and then the row of \<open>B\<close> leaves the selection at the name and the content of
  \<open>B\<close>, and the state is the one that clicking \<open>B\<close> alone gives, also from a state
  with nothing selected.
\<close>

theorem second_selection_replaces_first:
  assumes "type A = File" and "type B = File" and "content B = Some c"
  shows "selectedFile (run (onClick B) (run (onClick A) s)) = Some (name B, c)
    \<and> run (onClick B) (run (onClick A) s) = run (onClick B) s
    \<and> selectedFile (run (onClick B) (run (onClick A) s))
        = selectedFile (run (onClick B) (s\<lparr>selectedFile := None\<rparr>))"
  using assms by (simp add: onClick_def js_or_def)

text \<open>C7 at two files, the second one empty.\<close>

theorem second_selection_replaces_first_witness:
  "type (FileNode ''a.txt'' File (Some ''A'') None) = File
   \<and> type (FileNode ''b.txt'' File (Some '''') None) = File
   \<and> content (FileNode ''b.txt'' File (Some '''') None) = Some ''''
   \<and> selectedFile
       (run (onClick (FileNode ''b.txt'' File (Some '''') None))
         (run (onClick (FileNode ''a.txt'' File (Some ''A'') None)) initial_state))
     = Some (''b.txt'', '''')"
proof -
  have 1: "type (FileNode ''a.txt'' File (Some ''A'') None) = File"
    by simp
  have 2: "type (FileNode ''b.txt'' File (Some '''') None) = File"
    by simp
  have 3: "content (FileNode ''b.txt'' File (Some '''') None) = Some ''''"
    by simp
  from second_selection_replaces_first[OF 1 2 3, THEN conjunct1, of initial_state]
  show ?thesis
    by simp
qed

subsection \<open>C8: the rows of the tree\<close>

text \<open>
  Claim C8: the rows come in depth-first pre-order, each indented in proportion to its
  depth; for \<open>src/{a.txt, lib/{b.txt}}\<close> the depths are 0 for \<open>src\<close>, 1 for
  \<open>a.txt\<close> and \<open>lib\<close>, 2 for \<open>b.txt\<close>. The order and the depths are as claimed
  (\<open>render_preorder\<close>), and the margin written on the \<open>div\<close> of a row is 16 pixels
  times its depth. But the \<open>div\<close> of a child is rendered inside the \<open>div\<close> of its
  parent, so the margins add up (\<open>indentation_render\<close>): \<open>b.txt\<close> carries a margin
  of 32 pixels and is drawn 48 pixels from the edge, where 16 pixels for each level
  give 32.
\<close>

theorem nested_margins_add_up:
  "map (\<lambda>r. (label r, marginLeft r))
     (document_order (renderFileTree
        [FileNode ''src'' Directory None (Some
           [FileNode ''a.txt'' File (Some ''A'') None,
            FileNode ''lib'' Directory None (Some
              [FileNode ''b.txt'' File (Some ''B'') None])])] 0))
     = [(''src'', 0), (''a.txt'', 16), (''lib'', 16), (''b.txt'', 32)]
   \<and> indentation 0
       (renderFileTree
          [FileNode ''src'' Directory None (Some
             [FileNode ''a.txt'' File (Some ''A'') None,
              FileNode ''lib'' Directory None (Some
                [FileNode ''b.txt'' File (Some ''B'') None])])] 0)
     = [(''src'', 0), (''a.txt'', 16), (''lib'', 16), (''b.txt'', 48)]"
  by simp

subsection \<open>C9: clicking a directory\<close>

text \<open>
  Claim C9. Clicking the row of a node whose type is \<open>directory\<close> calls no setter: the
  selection and the rest of the state are what they were.
\<close>

theorem directory_click_changes_nothing:
  assumes "type (target r) = Directory"
  shows "click r = [] \<and> run (click r) s = s"
  using assms by (simp add: click_def onClick_def)

text \<open>C9 at the row of a directory, with a file selected.\<close>

theorem directory_click_changes_nothing_witness:
  "type (target (Row 0 FolderIcon ''lib'' (FileNode ''lib'' Directory None (Some [])) []))
     = Directory
   \<and> run (click (Row 0 FolderIcon ''lib'' (FileNode ''lib'' Directory None (Some [])) []))
       (initial_state\<lparr>selectedFile := Some (''a.txt'', ''A'')\<rparr>)
     = initial_state\<lparr>selectedFile := Some (''a.txt'', ''A'')\<rparr>"
proof -
  have 1: "type (target (Row 0 FolderIcon ''lib'' (FileNode ''lib'' Directory None (Some [])) []))
     = Directory"
    by simp
  from directory_click_changes_nothing[OF 1] 1 show ?thesis
    by simp
qed

subsection \<open>C10: the error is cleared first\<close>

text \<open>
  Claim C10, as the code has it. The first call of \<open>handleFolderSelect\<close> is
  \<open>setError(null)\<close>, so the state it leaves does not depend on the error shown
  before. A pick that succeeds makes no other \<open>setError\<close> call: run on its own it
  leaves the error \<open>null\<close> and \<open>files\<close> at the tree read, and so does every
  interleaving of its calls with calls of other handlers that do not set the error.
\<close>

theorem error_cleared_first:
  "(\<exists>rest. handleFolderSelect w = SetError None # rest)
   \<and> run (handleFolderSelect w) (s\<lparr>error := stale\<rparr>) = run (handleFolderSelect w) s
   \<and> (isFileSystemApiSupported w \<and> top_is_self w \<and> showDirectoryPicker w = Inr d
        \<and> readDirectory d [] = Inr filesData
      \<longrightarrow> run (handleFolderSelect w) s = s\<lparr>files := filesData, error := None\<rparr>
        \<and> filter sets_error (handleFolderSelect w) = [SetError None]
        \<and> (zs \<in> shuffles (handleFolderSelect w) others \<and> filter sets_error others = []
           \<longrightarrow> error (run zs s) = None))"
proof (intro conjI impI)
  show "\<exists>rest. handleFolderSelect w = SetError None # rest"
    by (rule handleFolderSelect_starts)
  then obtain rest where "handleFolderSelect w = SetError None # rest" ..
  then show "run (handleFolderSelect w) (s\<lparr>error := stale\<rparr>) = run (handleFolderSelect w) s"
    by simp
next
  assume "isFileSystemApiSupported w \<and> top_is_self w \<and> showDirectoryPicker w = Inr d
        \<and> readDirectory d [] = Inr filesData"
  then show "run (handleFolderSelect w) s = s\<lparr>files := filesData, error := None\<rparr>"
    by (simp add: handleFolderSelect_success)
next
  assume "isFileSystemApiSupported w \<and> top_is_self w \<and> showDirectoryPicker w = Inr d
        \<and> readDirectory d [] = Inr filesData"
  then show "filter sets_error (handleFolderSelect w) = [SetError None]"
    by (simp add: handleFolderSelect_success)
next
  assume ok: "isFileSystemApiSupported w \<and> top_is_self w \<and> showDirectoryPicker w = Inr d
        \<and> readDirectory d [] = Inr filesData"
    and il: "zs \<in> shuffles (handleFolderSelect w) others \<and> filter sets_error others = []"
  from il have "error (run zs s) = error (run (handleFolderSelect w) s)"
    by (blast intro: error_run_shuffles)
  also from ok have "run (handleFolderSelect w) s = s\<lparr>files := filesData, error := None\<rparr>"
    by (simp add: handleFolderSelect_success)
  finally show "error (run zs s) = None"
    by simp
qed

text \<open>
  C10 at a pick that succeeds while the banner of an earlier failure is shown, alone
  and with a click on a file row coming in while the folder is read.
\<close>

theorem error_cleared_first_witness:
  "isFileSystemApiSupported
     \<lparr>has_showDirectoryPicker = True, top_is_self = True,
      showDirectoryPicker = Inr (DirectoryHandle ''src'' [FileEntry ''a.txt'' (Text ''A'')] None)\<rparr>
   \<and> readDirectory (DirectoryHandle ''src'' [FileEntry ''a.txt'' (Text ''A'')] None) []
     = Inr [FileNode ''a.txt'' File (Some ''A'') None]
   \<and> run (handleFolderSelect
        \<lparr>has_showDirectoryPicker = True, top_is_self = True,
         showDirectoryPicker =
           Inr (DirectoryHandle ''src'' [FileEntry ''a.txt'' (Text ''A'')] None)\<rparr>)
       (initial_state\<lparr>error := Some fallback_message\<rparr>)
     = initial_state\<lparr>files := [FileNode ''a.txt'' File (Some ''A'') None], error := None\<rparr>
   \<and> [SetError None, CallShowDirectoryPicker,
       CallReadDirectory (DirectoryHandle ''src'' [FileEntry ''a.txt'' (Text ''A'')] None),
       SetSelectedFile (Some (''old.txt'', ''O'')),
       SetFiles [FileNode ''a.txt'' File (Some ''A'') None]]
     \<in> shuffles
         (handleFolderSelect
           \<lparr>has_showDirectoryPicker = True, top_is_self = True,
            showDirectoryPicker =
              Inr (DirectoryHandle ''src'' [FileEntry ''a.txt'' (Text ''A'')] None)\<rparr>)
         [SetSelectedFile (Some (''old.txt'', ''O''))]
   \<and> error (run
        [SetError None, CallShowDirectoryPicker,
         CallReadDirectory (DirectoryHandle ''src'' [FileEntry ''a.txt'' (Text ''A'')] None),
         SetSelectedFile (Some (''old.txt'', ''O'')),
         SetFiles [FileNode ''a.txt'' File (Some ''A'') None]]
        (initial_state\<lparr>error := Some fallback_message\<rparr>)) = None"
proof -
  let ?d = "DirectoryHandle ''src'' [FileEntry ''a.txt'' (Text ''A'')] None"
  let ?w = "\<lparr>has_showDirectoryPicker = True, top_is_self = True,
      showDirectoryPicker = Inr ?d\<rparr>"
  let ?t = "[FileNode ''a.txt'' File (Some ''A'') None]"
  let ?s = "initial_state\<lparr>error := Some fallback_message\<rparr>"
  let ?others = "[SetSelectedFile (Some (''old.txt'', ''O''))]"
  let ?zs = "[SetError None, CallShowDirectoryPicker, CallReadDirectory ?d,
      SetSelectedFile (Some (''old.txt'', ''O'')), SetFiles ?t]"
  have 1: "isFileSystemApiSupported ?w"
    by (simp add: isFileSystemApiSupported_def)
  have 2: "readDirectory ?d [] = Inr ?t"
    by simp
  have h: "isFileSystemApiSupported ?w \<and> top_is_self ?w \<and> showDirectoryPicker ?w = Inr ?d
      \<and> readDirectory ?d [] = Inr ?t"
    using 1 by simp
  have m: "?zs \<in> shuffles (handleFolderSelect ?w) ?others"
    by (rule click_during_read_interleaves)
  have f: "filter sets_error ?others = []"
    by simp
  note c = error_cleared_first[where w = ?w and d = ?d and s = ?s and filesData = ?t
      and zs = ?zs and others = ?others, THEN conjunct2, THEN conjunct2]
  from c h have r: "run (handleFolderSelect ?w) ?s = ?s\<lparr>files := ?t, error := None\<rparr>
      \<and> filter sets_error (handleFolderSelect ?w) = [SetError None]
      \<and> (?zs \<in> shuffles (handleFolderSelect ?w) ?others \<and> filter sets_error ?others = []
         \<longrightarrow> error (run ?zs ?s) = None)"
    by (rule mp)
  from r have a: "run (handleFolderSelect ?w) ?s = ?s\<lparr>files := ?t, error := None\<rparr>"
    by (rule conjunct1)
  from r m f have e: "error (run ?zs ?s) = None"
    by blast
  from a have a': "run (handleFolderSelect ?w) ?s = initial_state\<lparr>files := ?t, error := None\<rparr>"
    by simp
  from 1 2 a' m e show ?thesis
    by (intro conjI)
qed

text \<open>
  C10 as stated fails when two picks overlap: the first pick is reading its folder when
  the button is clicked again and the second picker is cancelled; the first pick then
  succeeds and calls \<open>setFiles\<close>, and the banner of the cancelled pick is still shown.
\<close>

theorem overlapping_cancel_leaves_banner:
  "[SetError None, CallShowDirectoryPicker,
    CallReadDirectory (DirectoryHandle ''src'' [FileEntry ''a.txt'' (Text ''A'')] None),
    SetError None, CallShowDirectoryPicker,
    ConsoleError ''Error selecting folder:''
      (JsError ''AbortError'' ''The user aborted a request.''),
    SetError (Some ''The user aborted a request.''),
    SetFiles [FileNode ''a.txt'' File (Some ''A'') None]]
   \<in> shuffles
       (handleFolderSelect
         \<lparr>has_showDirectoryPicker = True, top_is_self = True,
          showDirectoryPicker =
            Inr (DirectoryHandle ''src'' [FileEntry ''a.txt'' (Text ''A'')] None)\<rparr>)
       (handleFolderSelect
         \<lparr>has_showDirectoryPicker = True, top_is_self = True,
          showDirectoryPicker = Inl (JsError ''AbortError'' ''The user aborted a request.'')\<rparr>)
   \<and> files (run
        [SetError None, CallShowDirectoryPicker,
         CallReadDirectory (DirectoryHandle ''src'' [FileEntry ''a.txt'' (Text ''A'')] None),
         SetError None, CallShowDirectoryPicker,
         ConsoleError ''Error selecting folder:''
           (JsError ''AbortError'' ''The user aborted a request.''),
         SetError (Some ''The user aborted a request.''),
         SetFiles [FileNode ''a.txt'' File (Some ''A'') None]]
        initial_state) = [FileNode ''a.txt'' File (Some ''A'') None]
   \<and> error (run
        [SetError None, CallShowDirectoryPicker,
         CallReadDirectory (DirectoryHandle ''src'' [FileEntry ''a.txt'' (Text ''A'')] None),
         SetError None, CallShowDirectoryPicker,
         ConsoleError ''Error selecting folder:''
           (JsError ''AbortError'' ''The user aborted a request.''),
         SetError (Some ''The user aborted a request.''),
         SetFiles [FileNode ''a.txt'' File (Some ''A'') None]]
        initial_state) = Some ''The user aborted a request.''"
  by (rule conjI[OF cancel_during_read_interleaves]) (simp add: initial_state_def)

end
